theory Spec2Isabelle
  imports Main "HOL-Library.AList" "HOL-Library.Sublist"
begin

section \<open>The database-backed layer store of TileStache.Goodies.PGConfigServer\<close>

text \<open>
  The module holds two classes: \<open>DBLayers\<close>, a dictionary-like object that maps a layer
  key to a parsed layer and keeps the parsed layers in \<open>seen_layers\<close>, and
  \<open>PGConfiguration\<close>, which reads one configuration row and then builds the
  \<open>DBLayers\<close> object. Both talk to PostgreSQL through a psycopg2 connection.

  The embedding passes the state explicitly. Every Python exception is a value of
  \<open>error\<close>, and a method returns \<open>(error + result) \<times> state\<close>: the state after a raise
  is the state the exception leaves behind.
\<close>

subsection \<open>Exceptions\<close>

text \<open>
  \<open>InterfaceError\<close> is what \<open>connection.cursor()\<close> raises on a closed connection,
  \<open>OperationalError\<close> what \<open>cursor.execute\<close> raises when the server is gone,
  \<open>ProgrammingError\<close> what it raises for a statement PostgreSQL cannot parse.
  \<open>IndexError\<close> comes from \<open>[0]\<close> on an empty list, \<open>KeyError\<close> from a dictionary
  subscript with an absent key, \<open>TypeError\<close> from subscripting \<open>None\<close> and from an
  unsupported \<open>in\<close> or item assignment, \<open>AttributeError\<close> from \<open>.get\<close> on a value that
  is not a dictionary, \<open>JSONDecodeError\<close> from \<open>json.loads\<close>. The two parsers of
  \<open>TileStache.Config\<close> are collaborators; their failures are \<open>LayerParseError\<close> and
  \<open>CacheParseError\<close>.
\<close>

datatype error =
    InterfaceError
  | OperationalError
  | ProgrammingError
  | IndexError
  | KeyError
  | TypeError
  | AttributeError
  | JSONDecodeError
  | LayerParseError
  | CacheParseError

subsection \<open>The database\<close>

text \<open>
  A row of \<open>tilestache_layer\<close> has the columns \<open>key\<close>, \<open>value\<close> (JSON text) and
  \<open>updated\<close> (a timestamp, of which the code uses equality only). A row of
  \<open>tilestache_config\<close> is a pair of \<open>name\<close> and \<open>cache\<close> (JSON text). The tables are
  lists: the order of the rows decides which one \<open>[0]\<close> and \<open>fetchone\<close> pick, and a
  table may hold several rows with one key.

  A connection is closed (\<open>cursor()\<close> raises before a statement is sent), or open to
  a server that is gone (\<open>execute\<close> raises), or open to a server with its two tables.
\<close>

record layer_row =
  rkey :: string
  rvalue :: string
  rupdated :: nat

datatype connection =
    Closed
  | Broken
  | Live "layer_row list" "(string \<times> string) list"

text \<open>
  The SQL statements of the module, one constructor for each; the string is the key
  (or the configuration name) that \<open>format\<close> pastes into the statement text.
\<close>

datatype query =
    SelectKeys
  | SelectItems
  | SelectCount string
  | SelectValueUpdated string
  | SelectUpdated string
  | SelectCache string

text \<open>
  The statements are built as \<open>"... WHERE key='{0}';".format(key)\<close>. When the pasted
  text holds no quote, no backslash and no NUL character, it is one string literal
  and the condition is the comparison of the column with that text. A quote ends
  the literal early, a backslash is an escape on a server that runs without
  \<open>standard_conforming_strings\<close>, and a NUL ends the statement text; what the
  statement then means is up to PostgreSQL.
\<close>

definition plain :: "string \<Rightarrow> bool" where
  "plain k \<longleftrightarrow> CHR 0x27 \<notin> set k \<and> CHR 0x5C \<notin> set k \<and> CHR 0x00 \<notin> set k"

subsection \<open>JSON documents and Python's dictionary operations on them\<close>

datatype json =
    JNull
  | JBool bool
  | JNum int
  | JStr string
  | JArr "json list"
  | JObj "(string \<times> json) list"

text \<open>\<open>x not in d\<close>, for a string \<open>x\<close> and the value \<open>d\<close> that \<open>json.loads\<close> returned.\<close>

fun py_not_in :: "string \<Rightarrow> json \<Rightarrow> error + bool" where
  "py_not_in x (JObj kvs) = Inr (x \<notin> fst ` set kvs)"
| "py_not_in x (JArr xs) = Inr (JStr x \<notin> set xs)"
| "py_not_in x (JStr s) = Inr (\<not> sublist x s)"
| "py_not_in x JNull = Inl TypeError"
| "py_not_in x (JBool b) = Inl TypeError"
| "py_not_in x (JNum n) = Inl TypeError"

text \<open>\<open>d[k] = v\<close> for a string \<open>k\<close>.\<close>

fun py_setitem :: "json \<Rightarrow> string \<Rightarrow> json \<Rightarrow> error + json" where
  "py_setitem (JObj kvs) k v = Inr (JObj (AList.update k v kvs))"
| "py_setitem JNull k v = Inl TypeError"
| "py_setitem (JBool b) k v = Inl TypeError"
| "py_setitem (JNum n) k v = Inl TypeError"
| "py_setitem (JStr s) k v = Inl TypeError"
| "py_setitem (JArr xs) k v = Inl TypeError"

text \<open>\<open>d.get(k, default)\<close>.\<close>

fun py_get :: "json \<Rightarrow> string \<Rightarrow> json \<Rightarrow> error + json" where
  "py_get (JObj kvs) k dflt = Inr (case map_of kvs k of None \<Rightarrow> dflt | Some v \<Rightarrow> v)"
| "py_get JNull k dflt = Inl AttributeError"
| "py_get (JBool b) k dflt = Inl AttributeError"
| "py_get (JNum n) k dflt = Inl AttributeError"
| "py_get (JStr s) k dflt = Inl AttributeError"
| "py_get (JArr xs) k dflt = Inl AttributeError"

subsection \<open>Layer objects, cache entries, the state\<close>

text \<open>
  A parsed layer is a mutable Python object, and the caller of \<open>__getitem__\<close> keeps a
  reference to it. The objects live in \<open>heap\<close>, a list indexed by address; a new
  object is appended, so its address is the length of the heap before. Of a layer
  object the module touches two attributes, \<open>key\<close> (set after parsing) and
  \<open>provider.mapnik\<close> (the compiled style, set to \<open>None\<close> on staleness), and it tests
  the object's truth value (\<open>not layer\<close>), which the object's class decides:
  \<open>truthy\<close>. Everything else is \<open>body\<close>.

  An entry of \<open>seen_layers\<close> is the dictionary \<open>dict(layer=..., updated=...)\<close>. Its
  \<open>layer\<close> is an address, or \<open>None\<close> for Python's \<open>None\<close>.

  \<open>qlog\<close> lists the statements handed to \<open>cursor.execute\<close>, in order, and \<open>parsed\<close>
  counts the calls of \<open>_parseConfigLayer\<close>: both are observers added for the claims
  about query and parser counts.
\<close>

record 'l layer_obj =
  body :: 'l
  lkey :: "string option"
  mapnik :: "nat option"
  truthy :: bool

record entry =
  layer :: "nat option"
  updated :: nat

record 'c config =
  cache :: 'c
  dirpath :: json

record 'l state =
  seen_layers :: "string \<rightharpoonup> entry"
  heap :: "'l layer_obj list"
  qlog :: "query list"
  parsed :: nat

text \<open>
  The collaborators are parameters of the model: \<open>json.loads\<close> (\<open>None\<close> when the text
  is not JSON), \<open>TileStache.Config._parseConfigLayer\<close> and
  \<open>TileStache.Config._parseConfigCache\<close> (\<open>None\<close> when they raise), and PostgreSQL's
  reading of a condition whose pasted text is not plain: \<open>where_key\<close> gives the rows
  of the layer table that \<open>WHERE key='...'\<close> then selects, or the error of the
  statement, and \<open>where_name\<close> does the same for \<open>WHERE name='...'\<close> on the
  configuration table. (Pasted text that adds a second statement or a \<open>UNION\<close> is
  beyond these two parameters.)
\<close>

record ('c, 'l) env =
  json_loads :: "string \<Rightarrow> json option"
  parseConfigLayer :: "json \<Rightarrow> 'c config \<Rightarrow> string \<Rightarrow> 'l layer_obj option"
  parseConfigCache :: "json \<Rightarrow> json \<Rightarrow> 'c option"
  where_key :: "string \<Rightarrow> layer_row list \<Rightarrow> error + layer_row list"
  where_name :: "string \<Rightarrow> (string \<times> string) list \<Rightarrow> error + (string \<times> string) list"

subsection \<open>DBLayers\<close>

text \<open>Sequencing: the second step runs only when the first one did not raise.\<close>

definition on_success ::
  "(error + 'a) \<times> 's \<Rightarrow> ('a \<Rightarrow> 's \<Rightarrow> (error + 'b) \<times> 's) \<Rightarrow> (error + 'b) \<times> 's" where
  "on_success m f = (case m of (Inl e, s) \<Rightarrow> (Inl e, s) | (Inr v, s) \<Rightarrow> f v s)"

text \<open>The rows that \<open>WHERE key='{0}'\<close> selects, and the columns read from them.\<close>

definition rows_where ::
  "('c, 'l) env \<Rightarrow> string \<Rightarrow> layer_row list \<Rightarrow> error + layer_row list" where
  "rows_where E k lt =
     (if plain k then Inr (filter (\<lambda>r. rkey r = k) lt) else where_key E k lt)"

definition columns :: "('r list \<Rightarrow> 'a) \<Rightarrow> error + 'r list \<Rightarrow> error + 'a" where
  "columns f sel = (case sel of Inl e \<Rightarrow> Inl e | Inr rs \<Rightarrow> Inr (f rs))"

text \<open>
  \<open>query_db\<close> opens a cursor, executes one statement and fetches its result. The
  statement is given by its \<open>query\<close> and by \<open>answer\<close>, the result it has on the layer
  table.
\<close>

definition query_db ::
  "connection \<Rightarrow> query \<Rightarrow> (layer_row list \<Rightarrow> error + 'a) \<Rightarrow> 'l state
     \<Rightarrow> (error + 'a) \<times> 'l state" where
  "query_db conn q answer s =
     (case conn of
        Closed \<Rightarrow> (Inl InterfaceError, s)
      | Broken \<Rightarrow> (Inl OperationalError, s\<lparr>qlog := qlog s @ [q]\<rparr>)
      | Live lt ct \<Rightarrow> (answer lt, s\<lparr>qlog := qlog s @ [q]\<rparr>))"

definition keys :: "connection \<Rightarrow> 'l state \<Rightarrow> (error + string list) \<times> 'l state" where
  "keys conn s = query_db conn SelectKeys (\<lambda>lt. Inr (map rkey lt)) s"

definition items :: "connection \<Rightarrow> 'l state \<Rightarrow> (error + (string \<times> string) list) \<times> 'l state" where
  "items conn s = query_db conn SelectItems (\<lambda>lt. Inr (map (\<lambda>r. (rkey r, rvalue r)) lt)) s"

text \<open>
  \<open>__contains__\<close>. \<open>COUNT(key)\<close> gives one row with one number, and
  \<open>result[0] == True\<close> compares that number with \<open>True\<close>, which in Python equals the
  integer 1 and no other.
\<close>

definition contains ::
  "('c, 'l) env \<Rightarrow> connection \<Rightarrow> string \<Rightarrow> 'l state \<Rightarrow> (error + bool) \<times> 'l state" where
  "contains E conn key s =
     (case seen_layers s key of
        Some e \<Rightarrow> (Inr True, s)
      | None \<Rightarrow>
          on_success
            (query_db conn (SelectCount key) (\<lambda>lt. columns length (rows_where E key lt)) s)
            (\<lambda>n s1. (Inr (n = 1), s1)))"

definition fetch_layer_from_db ::
  "('c, 'l) env \<Rightarrow> connection \<Rightarrow> 'c config \<Rightarrow> string \<Rightarrow> 'l state \<Rightarrow> (error + nat) \<times> 'l state" where
  "fetch_layer_from_db E conn cfg key s =
     on_success
       (query_db conn (SelectValueUpdated key)
          (\<lambda>lt. columns (map (\<lambda>r. (rvalue r, rupdated r))) (rows_where E key lt)) s)
       (\<lambda>rs s1.
          case rs of
            [] \<Rightarrow> (Inl IndexError, s1)
          | raw_result # _ \<Rightarrow>
              (case json_loads E (fst raw_result) of
                 None \<Rightarrow> (Inl JSONDecodeError, s1)
               | Some layer_dict \<Rightarrow>
                   (let s2 = s1\<lparr>parsed := Suc (parsed s1)\<rparr> in
                    case parseConfigLayer E layer_dict cfg ''/tmp/stache'' of
                      None \<Rightarrow> (Inl LayerParseError, s2)
                    | Some obj \<Rightarrow>
                        (let a = length (heap s2) in
                         (Inr a,
                          s2\<lparr>heap := heap s2 @ [obj\<lparr>lkey := Some key\<rparr>],
                             seen_layers := (seen_layers s2)
                               (key \<mapsto> \<lparr>layer = Some a, updated = snd raw_result\<rparr>)\<rparr>)))))"

definition check_style_status ::
  "('c, 'l) env \<Rightarrow> connection \<Rightarrow> string \<Rightarrow> 'l state \<Rightarrow> (error + bool) \<times> 'l state" where
  "check_style_status E conn key s =
     on_success
       (query_db conn (SelectUpdated key)
          (\<lambda>lt. columns (map rupdated) (rows_where E key lt)) s)
       (\<lambda>us s1.
          case us of
            [] \<Rightarrow> (Inl IndexError, s1)
          | upd # _ \<Rightarrow>
              (case seen_layers s1 key of
                 None \<Rightarrow> (Inl KeyError, s1)
               | Some e \<Rightarrow>
                   if upd \<noteq> updated e
                   then (Inr True, s1\<lparr>seen_layers := (seen_layers s1)(key \<mapsto> e\<lparr>updated := upd\<rparr>)\<rparr>)
                   else (Inr False, s1)))"

text \<open>\<open>layer.provider.mapnik = None\<close> on the object at address \<open>a\<close>.\<close>

definition clear_mapnik :: "nat \<Rightarrow> 'l state \<Rightarrow> 'l state" where
  "clear_mapnik a s = s\<lparr>heap := (heap s)[a := (heap s ! a)\<lparr>mapnik := None\<rparr>]\<rparr>"

text \<open>\<open>not layer\<close>, for the \<open>layer\<close> of an entry: \<open>None\<close>, or an object that is false.\<close>

definition falsy :: "'l state \<Rightarrow> nat option \<Rightarrow> bool" where
  "falsy s l = (case l of None \<Rightarrow> True | Some a \<Rightarrow> \<not> truthy (heap s ! a))"

definition getitem ::
  "('c, 'l) env \<Rightarrow> connection \<Rightarrow> 'c config \<Rightarrow> string \<Rightarrow> 'l state \<Rightarrow> (error + nat) \<times> 'l state" where
  "getitem E conn cfg key s =
     (case seen_layers s key of
        None \<Rightarrow> fetch_layer_from_db E conn cfg key s
      | Some e \<Rightarrow>
          if falsy s (layer e)
          then fetch_layer_from_db E conn cfg key
                 (s\<lparr>seen_layers := (seen_layers s)(key := None)\<rparr>)
          else
            on_success (check_style_status E conn key s)
              (\<lambda>stale s1.
                 if stale
                 then fetch_layer_from_db E conn cfg key (clear_mapnik (the (layer e)) s1)
                 else (Inr (the (layer e)), s1)))"

text \<open>The loop of \<open>DBLayers.__init__\<close>: it stops at the first key whose fetch raises.\<close>

fun fetch_all ::
  "('c, 'l) env \<Rightarrow> connection \<Rightarrow> 'c config \<Rightarrow> string list \<Rightarrow> 'l state \<Rightarrow> (error + unit) \<times> 'l state" where
  "fetch_all E conn cfg [] s = (Inr (), s)"
| "fetch_all E conn cfg (key # ks) s =
     on_success (fetch_layer_from_db E conn cfg key s) (\<lambda>_ s1. fetch_all E conn cfg ks s1)"

definition DBLayers_init ::
  "('c, 'l) env \<Rightarrow> connection \<Rightarrow> 'c config \<Rightarrow> 'l state \<Rightarrow> (error + unit) \<times> 'l state" where
  "DBLayers_init E conn cfg s =
     on_success (keys conn (s\<lparr>seen_layers := Map.empty\<rparr>))
       (\<lambda>ks s1. fetch_all E conn cfg ks s1)"

subsection \<open>PGConfiguration\<close>

text \<open>
  \<open>get_cache_dict\<close> has its own cursor. \<open>fetchone\<close> gives \<open>None\<close> when the statement
  selects no row, and \<open>None[0]\<close> raises \<open>TypeError\<close>.
\<close>

definition names_where ::
  "('c, 'l) env \<Rightarrow> string \<Rightarrow> (string \<times> string) list \<Rightarrow> error + (string \<times> string) list" where
  "names_where E n ct =
     (if plain n then Inr (filter (\<lambda>r. fst r = n) ct) else where_name E n ct)"

definition get_cache_dict ::
  "('c, 'l) env \<Rightarrow> connection \<Rightarrow> string \<Rightarrow> 'l state \<Rightarrow> (error + json) \<times> 'l state" where
  "get_cache_dict E conn config_name s =
     (case conn of
        Closed \<Rightarrow> (Inl InterfaceError, s)
      | Broken \<Rightarrow> (Inl OperationalError, s\<lparr>qlog := qlog s @ [SelectCache config_name]\<rparr>)
      | Live lt ct \<Rightarrow>
          (let s' = s\<lparr>qlog := qlog s @ [SelectCache config_name]\<rparr> in
           case names_where E config_name ct of
             Inl e \<Rightarrow> (Inl e, s')
           | Inr [] \<Rightarrow> (Inl TypeError, s')
           | Inr (r # _) \<Rightarrow>
               (case json_loads E (snd r) of
                  None \<Rightarrow> (Inl JSONDecodeError, s')
                | Some config_singleton \<Rightarrow> (Inr config_singleton, s'))))"

text \<open>A step that touches no state.\<close>

definition pure_step :: "error + 'a \<Rightarrow> 's \<Rightarrow> (error + 'a) \<times> 's" where
  "pure_step r s = (r, s)"

definition PGConfiguration_init ::
  "('c, 'l) env \<Rightarrow> connection \<Rightarrow> string \<Rightarrow> string \<Rightarrow> string \<Rightarrow> 'l state
     \<Rightarrow> (error + 'c config) \<times> 'l state" where
  "PGConfiguration_init E conn dirpath' loglevel config_name s =
     on_success (get_cache_dict E conn config_name s) (\<lambda>cache_dict s1.
     on_success (pure_step (py_not_in loglevel cache_dict) s1) (\<lambda>absent s2.
     on_success (pure_step (if absent then py_setitem cache_dict ''loglevel'' (JStr loglevel)
                            else Inr cache_dict) s2) (\<lambda>cache_dict' s3.
     on_success (pure_step (py_get cache_dict' ''path'' (JStr dirpath')) s3) (\<lambda>path s4.
       case parseConfigCache E cache_dict' path of
         None \<Rightarrow> (Inl CacheParseError, s4)
       | Some c \<Rightarrow>
           (let cfg = \<lparr>cache = c, dirpath = path\<rparr> in
            on_success (DBLayers_init E conn cfg s4) (\<lambda>_ s5. (Inr cfg, s5)))))))"

subsection \<open>Observers and concrete values for the worked examples\<close>

text \<open>The statement that reads the \<open>updated\<close> column alone.\<close>

fun is_timestamp_query :: "query \<Rightarrow> bool" where
  "is_timestamp_query (SelectUpdated k) = True"
| "is_timestamp_query q = False"

text \<open>
  A store whose JSON reader accepts the text \<open>{}\<close> only and whose layer parser
  accepts every document. Of the texts that are not plain it knows one, the text
  \<open>x' OR '1'='1\<close>: pasted into \<open>WHERE key='{0}'\<close> it gives the condition
  \<open>key='x' OR '1'='1'\<close>, which PostgreSQL finds true of every row. A second store
  differs in its layer parser, whose objects are false for \<open>not layer\<close>.
\<close>

definition example_env :: "(unit, string) env" where
  "example_env =
     \<lparr>json_loads = (\<lambda>t. if t = ''{}'' then Some (JObj []) else None),
      parseConfigLayer =
        (\<lambda>d cfg dir. Some \<lparr>body = ''layer'', lkey = None, mapnik = None, truthy = True\<rparr>),
      parseConfigCache = (\<lambda>d p. Some ()),
      where_key = (\<lambda>k lt. if k = ''x' OR '1'='1'' then Inr lt else Inl ProgrammingError),
      where_name = (\<lambda>n ct. if n = ''x' OR '1'='1'' then Inr ct else Inl ProgrammingError)\<rparr>"

definition empty_layers_env :: "(unit, string) env" where
  "empty_layers_env =
     example_env\<lparr>parseConfigLayer :=
       (\<lambda>d cfg dir. Some \<lparr>body = ''empty'', lkey = None, mapnik = None, truthy = False\<rparr>)\<rparr>"

text \<open>
  A configuration; the state of a process that has built nothing yet; rows of the
  layer table for the keys \<open>roads\<close> and \<open>rivers\<close>; a state where \<open>roads\<close> was fetched
  at timestamp 1 and its style has been compiled since (handle 7); the state that a
  first lookup of \<open>roads\<close> leaves in the second store.
\<close>

definition example_cfg :: "unit config" where
  "example_cfg = \<lparr>cache = (), dirpath = JStr ''/tmp''\<rparr>"

definition example_state :: "string state" where
  "example_state = \<lparr>seen_layers = Map.empty, heap = [], qlog = [], parsed = 0\<rparr>"

definition roads_row :: "string \<Rightarrow> nat \<Rightarrow> layer_row" where
  "roads_row v t = \<lparr>rkey = ''roads'', rvalue = v, rupdated = t\<rparr>"

definition rivers_row :: "string \<Rightarrow> nat \<Rightarrow> layer_row" where
  "rivers_row v t = \<lparr>rkey = ''rivers'', rvalue = v, rupdated = t\<rparr>"

definition roads_cached :: "string state" where
  "roads_cached =
     \<lparr>seen_layers = [''roads'' \<mapsto> \<lparr>layer = Some 0, updated = 1\<rparr>],
      heap = [\<lparr>body = ''old'', lkey = Some ''roads'', mapnik = Some 7, truthy = True\<rparr>],
      qlog = [], parsed = 1\<rparr>"

definition empty_layer_cached :: "string state" where
  "empty_layer_cached =
     \<lparr>seen_layers = [''roads'' \<mapsto> \<lparr>layer = Some 0, updated = 1\<rparr>],
      heap = [\<lparr>body = ''empty'', lkey = Some ''roads'', mapnik = None, truthy = False\<rparr>],
      qlog = [SelectValueUpdated ''roads''], parsed = 1\<rparr>"

section \<open>Properties\<close>

subsection \<open>Lists: the first row and the number of rows with a key\<close>

lemma filter_first_row:
  "(case filter P xs of [] \<Rightarrow> None | x # _ \<Rightarrow> Some x) = find P xs"
  by (induction xs) simp_all

lemma length_filter_count_list:
  "length (filter (\<lambda>r. rkey r = key) lt) = count_list (map rkey lt) key"
  by (induction lt) simp_all

subsection \<open>What a fetch and a staleness check do, case by case\<close>

lemma fetch_layer_from_db_live:
  "plain key \<Longrightarrow>
   fetch_layer_from_db E (Live lt ct) cfg key s =
     (case find (\<lambda>r. rkey r = key) lt of
        None \<Rightarrow> (Inl IndexError, s\<lparr>qlog := qlog s @ [SelectValueUpdated key]\<rparr>)
      | Some r \<Rightarrow>
          (case json_loads E (rvalue r) of
             None \<Rightarrow> (Inl JSONDecodeError, s\<lparr>qlog := qlog s @ [SelectValueUpdated key]\<rparr>)
           | Some d \<Rightarrow>
               (case parseConfigLayer E d cfg ''/tmp/stache'' of
                  None \<Rightarrow> (Inl LayerParseError,
                            s\<lparr>qlog := qlog s @ [SelectValueUpdated key], parsed := Suc (parsed s)\<rparr>)
                | Some obj \<Rightarrow>
                    (Inr (length (heap s)),
                     s\<lparr>qlog := qlog s @ [SelectValueUpdated key],
                       parsed := Suc (parsed s),
                       heap := heap s @ [obj\<lparr>lkey := Some key\<rparr>],
                       seen_layers := (seen_layers s)
                         (key \<mapsto> \<lparr>layer = Some (length (heap s)), updated = rupdated r\<rparr>)\<rparr>))))"
  unfolding filter_first_row [symmetric]
  by (simp add: fetch_layer_from_db_def on_success_def query_db_def rows_where_def columns_def
      Let_def split: list.splits option.splits)

lemma check_style_status_live:
  "plain key \<Longrightarrow> seen_layers s key = Some e \<Longrightarrow>
   check_style_status E (Live lt ct) key s =
     (case find (\<lambda>r. rkey r = key) lt of
        None \<Rightarrow> (Inl IndexError, s\<lparr>qlog := qlog s @ [SelectUpdated key]\<rparr>)
      | Some r \<Rightarrow>
          if rupdated r \<noteq> updated e
          then (Inr True, s\<lparr>qlog := qlog s @ [SelectUpdated key],
                            seen_layers := (seen_layers s)(key \<mapsto> e\<lparr>updated := rupdated r\<rparr>)\<rparr>)
          else (Inr False, s\<lparr>qlog := qlog s @ [SelectUpdated key]\<rparr>))"
  unfolding filter_first_row [symmetric]
  by (simp add: check_style_status_def on_success_def query_db_def rows_where_def columns_def
      split: list.splits)

lemma fetch_layer_from_db_success:
  assumes "fetch_layer_from_db E conn cfg key s = (Inr a, s1)"
  shows "a = length (heap s) \<and>
         (\<exists>obj u. heap s1 = heap s @ [obj] \<and>
            seen_layers s1 = (seen_layers s)(key \<mapsto> \<lparr>layer = Some a, updated = u\<rparr>))"
  using assms
  by (auto simp add: fetch_layer_from_db_def on_success_def query_db_def columns_def Let_def
      split: connection.splits sum.splits list.splits option.splits)

lemma fetch_layer_from_db_failure:
  assumes "fetch_layer_from_db E conn cfg key s = (Inl err, s1)"
  shows "seen_layers s1 = seen_layers s \<and> heap s1 = heap s"
  using assms
  by (auto simp add: fetch_layer_from_db_def on_success_def query_db_def columns_def Let_def
      split: connection.splits sum.splits list.splits option.splits)

lemma fetch_layer_from_db_heap:
  "length (heap s) \<le> length (heap (snd (fetch_layer_from_db E conn cfg key s))) \<and>
   (\<forall>i < length (heap s). heap (snd (fetch_layer_from_db E conn cfg key s)) ! i = heap s ! i)"
proof (cases "fetch_layer_from_db E conn cfg key s")
  case (Pair res s1)
  then show ?thesis
    using fetch_layer_from_db_success [of E conn cfg key s _ s1]
      fetch_layer_from_db_failure [of E conn cfg key s _ s1]
    by (cases res) (auto simp add: nth_append)
qed

lemma fetch_layer_from_db_other_keys:
  "k' \<noteq> key \<Longrightarrow> seen_layers (snd (fetch_layer_from_db E conn cfg key s)) k' = seen_layers s k'"
proof (cases "fetch_layer_from_db E conn cfg key s")
  case (Pair res s1)
  assume "k' \<noteq> key"
  with Pair show ?thesis
    using fetch_layer_from_db_success [of E conn cfg key s _ s1]
      fetch_layer_from_db_failure [of E conn cfg key s _ s1]
    by (cases res) auto
qed

lemma fetch_layer_from_db_keeps_entry:
  "seen_layers s key \<noteq> None \<Longrightarrow>
   seen_layers (snd (fetch_layer_from_db E conn cfg key s)) key \<noteq> None"
proof (cases "fetch_layer_from_db E conn cfg key s")
  case (Pair res s1)
  assume "seen_layers s key \<noteq> None"
  with Pair show ?thesis
    using fetch_layer_from_db_success [of E conn cfg key s _ s1]
      fetch_layer_from_db_failure [of E conn cfg key s _ s1]
    by (cases res) auto
qed

lemma qlog_fetch_layer_from_db:
  "qlog (snd (fetch_layer_from_db E conn cfg key s)) =
     (if conn = Closed then qlog s else qlog s @ [SelectValueUpdated key])"
  by (auto simp add: fetch_layer_from_db_def on_success_def query_db_def columns_def Let_def
      split: connection.splits sum.splits list.splits option.splits)

lemma check_style_status_cases:
  assumes "seen_layers s key = Some e"
  obtains (raised) err s1 where
      "check_style_status E conn key s = (Inl err, s1)"
      "seen_layers s1 = seen_layers s" "heap s1 = heap s"
      "qlog s1 = (if conn = Closed then qlog s else qlog s @ [SelectUpdated key])"
  | (fresh)
      "check_style_status E conn key s = (Inr False, s\<lparr>qlog := qlog s @ [SelectUpdated key]\<rparr>)"
      "conn \<noteq> Closed"
  | (stale) u where
      "check_style_status E conn key s =
         (Inr True, s\<lparr>qlog := qlog s @ [SelectUpdated key],
                      seen_layers := (seen_layers s)(key \<mapsto> e\<lparr>updated := u\<rparr>)\<rparr>)"
      "conn \<noteq> Closed"
proof (cases "check_style_status E conn key s")
  case (Pair res s1)
  show ?thesis
  proof (cases res)
    case (Inl err)
    with Pair assms show ?thesis
      by (intro raised [of err s1])
        (auto simp add: check_style_status_def on_success_def query_db_def columns_def
          split: connection.splits sum.splits list.splits if_splits)
  next
    case (Inr b)
    show ?thesis
    proof (cases b)
      case True
      with Inr Pair assms show ?thesis
        by (auto simp add: check_style_status_def on_success_def query_db_def columns_def
            split: connection.splits sum.splits list.splits if_splits intro: stale)
    next
      case False
      with Inr Pair assms show ?thesis
        by (auto simp add: check_style_status_def on_success_def query_db_def columns_def
            split: connection.splits sum.splits list.splits if_splits intro: fresh)
    qed
  qed
qed

subsection \<open>The cache map across a lookup\<close>

lemma getitem_other_keys:
  assumes "k' \<noteq> key"
  shows "seen_layers (snd (getitem E conn cfg key s)) k' = seen_layers s k'"
proof (cases "seen_layers s key")
  case None
  with assms show ?thesis by (simp add: getitem_def fetch_layer_from_db_other_keys)
next
  case (Some e)
  show ?thesis
  proof (cases "falsy s (layer e)")
    case True
    with Some assms show ?thesis by (simp add: getitem_def fetch_layer_from_db_other_keys)
  next
    case False
    from Some show ?thesis
      by (cases rule: check_style_status_cases [where E = E and conn = conn])
        (use assms False Some in
          \<open>simp_all add: getitem_def on_success_def clear_mapnik_def
             fetch_layer_from_db_other_keys\<close>)
  qed
qed

lemma getitem_success_cached:
  assumes "getitem E conn cfg key s = (Inr a, s')"
  shows "seen_layers s' key \<noteq> None"
proof (cases "seen_layers s key")
  case None
  with assms fetch_layer_from_db_success [of E conn cfg key s a s'] show ?thesis
    by (auto simp add: getitem_def)
next
  case (Some e)
  show ?thesis
  proof (cases "falsy s (layer e)")
    case True
    with Some assms
      fetch_layer_from_db_success
        [of E conn cfg key "s\<lparr>seen_layers := (seen_layers s)(key := None)\<rparr>" a s']
    show ?thesis by (auto simp add: getitem_def)
  next
    case False
    from Some show ?thesis
    proof (cases rule: check_style_status_cases [where E = E and conn = conn])
      case (raised err s1)
      with assms False Some show ?thesis
        by (simp add: getitem_def on_success_def)
    next
      case fresh
      with assms False Some show ?thesis
        by (auto simp add: getitem_def on_success_def)
    next
      case (stale u)
      with assms False Some
      have "fetch_layer_from_db E conn cfg key
              (clear_mapnik (the (layer e)) (s\<lparr>qlog := qlog s @ [SelectUpdated key],
                 seen_layers := (seen_layers s)(key \<mapsto> e\<lparr>updated := u\<rparr>)\<rparr>)) = (Inr a, s')"
        by (simp add: getitem_def on_success_def)
      from fetch_layer_from_db_success [OF this] show ?thesis by auto
    qed
  qed
qed

lemma getitem_keeps_object_entry:
  assumes "seen_layers s key = Some e" and "\<not> falsy s (layer e)"
  shows "seen_layers (snd (getitem E conn cfg key s)) key \<noteq> None"
  using assms(1)
  by (cases rule: check_style_status_cases [where E = E and conn = conn])
    (use assms in \<open>simp_all add: getitem_def on_success_def clear_mapnik_def
       fetch_layer_from_db_keeps_entry\<close>)

lemma fetch_all_dom:
  "fetch_all E conn cfg ks s = (Inr u, s') \<Longrightarrow>
   dom (seen_layers s') = dom (seen_layers s) \<union> set ks"
proof (induction ks arbitrary: s)
  case Nil
  then show ?case by simp
next
  case (Cons k ks)
  obtain res s1 where f: "fetch_layer_from_db E conn cfg k s = (res, s1)"
    by (cases "fetch_layer_from_db E conn cfg k s")
  with Cons.prems obtain a where r: "res = Inr a"
    and rest: "fetch_all E conn cfg ks s1 = (Inr u, s')"
    by (cases res) (simp_all add: on_success_def)
  from fetch_layer_from_db_success [of E conn cfg k s a s1] f r
  have "dom (seen_layers s1) = insert k (dom (seen_layers s))" by auto
  with Cons.IH [OF rest] show ?case by auto
qed

lemma DBLayers_init_dom:
  assumes "DBLayers_init E (Live lt ct) cfg s = (Inr u, s')"
  shows "dom (seen_layers s') = rkey ` set lt"
proof -
  from assms have "fetch_all E (Live lt ct) cfg (map rkey lt)
      (s\<lparr>seen_layers := Map.empty, qlog := qlog s @ [SelectKeys]\<rparr>) = (Inr u, s')"
    by (simp add: DBLayers_init_def keys_def query_db_def on_success_def)
  from fetch_all_dom [OF this] show ?thesis by simp
qed

subsection \<open>The statements a lookup sends\<close>

lemma qlog_getitem_object:
  assumes "seen_layers s key = Some e" and "\<not> falsy s (layer e)" and "conn \<noteq> Closed"
  shows "qlog (snd (getitem E conn cfg key s)) = qlog s @ [SelectUpdated key] \<or>
         qlog (snd (getitem E conn cfg key s)) =
           qlog s @ [SelectUpdated key, SelectValueUpdated key]"
  using assms(1)
  by (cases rule: check_style_status_cases [where E = E and conn = conn])
    (use assms in \<open>simp_all add: getitem_def on_success_def clear_mapnik_def
       qlog_fetch_layer_from_db\<close>)

section \<open>The claims\<close>

subsection \<open>Lookup of a cached key\<close>

text \<open>
  Claim C1, as the code has it. Let \<open>key\<close> be a plain key in the cache, its entry
  holding the layer object at address \<open>a\<close>, an object that is not empty, and let
  \<open>r\<close> be the first row of the store with that key. Then \<open>getitem\<close> sends the
  timestamp query before anything else. If the row's \<open>updated\<close> equals the entry's,
  the call returns \<open>a\<close>, the cached object, and leaves cache, heap and parser count
  as they were. If it differs, the call clears the compiled style of the object at
  \<open>a\<close>, sends the full-row query, and, when the row parses, puts the new object at a
  new address, writes that address and the row's timestamp into the entry, returns
  the new address, and has called the parser once more.
\<close>

theorem getitem_cached:
  assumes "plain key" and "seen_layers s key = Some e" and "layer e = Some a"
    and "a < length (heap s)" and "truthy (heap s ! a)"
    and "find (\<lambda>r. rkey r = key) lt = Some r"
  shows "case getitem E (Live lt ct) cfg key s of (res, s') \<Rightarrow>
           (\<exists>later. qlog s' = qlog s @ SelectUpdated key # later) \<and>
           (rupdated r = updated e \<longrightarrow>
              res = Inr a \<and> seen_layers s' = seen_layers s \<and> heap s' = heap s \<and>
              parsed s' = parsed s \<and> qlog s' = qlog s @ [SelectUpdated key]) \<and>
           (rupdated r \<noteq> updated e \<longrightarrow>
              mapnik (heap s' ! a) = None \<and>
              (\<forall>d obj. json_loads E (rvalue r) = Some d \<longrightarrow>
                 parseConfigLayer E d cfg ''/tmp/stache'' = Some obj \<longrightarrow>
                 res = Inr (length (heap s)) \<and> length (heap s) \<noteq> a \<and>
                 heap s' ! length (heap s) = obj\<lparr>lkey := Some key\<rparr> \<and>
                 seen_layers s' = (seen_layers s)
                   (key \<mapsto> \<lparr>layer = Some (length (heap s)), updated = rupdated r\<rparr>) \<and>
                 parsed s' = Suc (parsed s) \<and>
                 qlog s' = qlog s @ [SelectUpdated key, SelectValueUpdated key]))"
  using assms
  by (auto simp add: getitem_def falsy_def check_style_status_live fetch_layer_from_db_live
      on_success_def clear_mapnik_def nth_append split: option.splits)

text \<open>
  The scenario of the specification, in a table that also holds \<open>rivers\<close>: \<open>roads\<close>
  was cached at timestamp 1. With its row still at 1 the lookup returns object 0 and
  the parser count stays 1; with the row at 2 it returns the new object 1, the count
  is 2 and object 0 has lost its style.
\<close>

theorem getitem_cached_witness:
  "plain ''roads'' \<and>
   seen_layers roads_cached ''roads'' = Some \<lparr>layer = Some 0, updated = 1\<rparr> \<and>
   0 < length (heap roads_cached) \<and> truthy (heap roads_cached ! 0) \<and>
   find (\<lambda>r. rkey r = ''roads'') [rivers_row ''{}'' 5, roads_row ''{}'' 1]
     = Some (roads_row ''{}'' 1) \<and>
   find (\<lambda>r. rkey r = ''roads'') [rivers_row ''{}'' 1, roads_row ''{}'' 2]
     = Some (roads_row ''{}'' 2) \<and>
   fst (getitem example_env (Live [rivers_row ''{}'' 5, roads_row ''{}'' 1] []) example_cfg
     ''roads'' roads_cached) = Inr 0 \<and>
   parsed (snd (getitem example_env (Live [rivers_row ''{}'' 5, roads_row ''{}'' 1] [])
     example_cfg ''roads'' roads_cached)) = 1 \<and>
   fst (getitem example_env (Live [rivers_row ''{}'' 1, roads_row ''{}'' 2] []) example_cfg
     ''roads'' roads_cached) = Inr 1 \<and>
   parsed (snd (getitem example_env (Live [rivers_row ''{}'' 1, roads_row ''{}'' 2] [])
     example_cfg ''roads'' roads_cached)) = 2 \<and>
   mapnik (heap (snd (getitem example_env (Live [rivers_row ''{}'' 1, roads_row ''{}'' 2] [])
     example_cfg ''roads'' roads_cached)) ! 0) = None"
  using
    getitem_cached [where s = roads_cached and key = "''roads''"
      and e = "\<lparr>layer = Some 0, updated = 1\<rparr>" and a = 0
      and lt = "[rivers_row ''{}'' 5, roads_row ''{}'' 1]" and r = "roads_row ''{}'' 1"
      and E = example_env and ct = "[]" and cfg = example_cfg]
    getitem_cached [where s = roads_cached and key = "''roads''"
      and e = "\<lparr>layer = Some 0, updated = 1\<rparr>" and a = 0
      and lt = "[rivers_row ''{}'' 1, roads_row ''{}'' 2]" and r = "roads_row ''{}'' 2"
      and E = example_env and ct = "[]" and cfg = example_cfg]
  by (simp add: roads_cached_def roads_row_def rivers_row_def plain_def example_env_def
      split: prod.splits)

text \<open>
  Against C1 as stated, for a key that is in the cache. First, a lookup in the
  second store caches an empty layer object for \<open>roads\<close>; the next lookup, with the
  row's timestamp unchanged, sends no timestamp query, calls the parser again and
  returns another object. Second, \<open>roads\<close> is cached at timestamp 1 and its row is
  now at timestamp 2 with a value that is not JSON: the timestamps differ, and the
  call returns no layer and has not called the parser.
\<close>

theorem getitem_cached_fails_for_empty_or_unparseable:
  "getitem empty_layers_env (Live [roads_row ''{}'' 1] []) example_cfg ''roads'' example_state =
     (Inr 0, empty_layer_cached) \<and>
   (case getitem empty_layers_env (Live [roads_row ''{}'' 1] []) example_cfg ''roads''
           empty_layer_cached of
      (res, s') \<Rightarrow>
        res = Inr 1 \<and> parsed s' = Suc (parsed empty_layer_cached) \<and>
        qlog s' = qlog empty_layer_cached @ [SelectValueUpdated ''roads'']) \<and>
   (case getitem example_env (Live [rivers_row ''{}'' 1, roads_row ''not json'' 2] [])
           example_cfg ''roads'' roads_cached of
      (res, s') \<Rightarrow> res = Inl JSONDecodeError \<and> parsed s' = parsed roads_cached)"
  by (simp add: getitem_def falsy_def check_style_status_live fetch_layer_from_db_live
      on_success_def clear_mapnik_def plain_def roads_cached_def empty_layer_cached_def
      example_state_def roads_row_def rivers_row_def example_env_def empty_layers_env_def)

text \<open>
  Claim C2, at the input where the code departs from it. \<open>roads\<close> is cached at
  timestamp 1 with its style compiled; the row has since changed to timestamp 2 and a
  value that is not JSON. The lookup raises \<open>JSONDecodeError\<close>, and the entry it
  leaves behind still holds the old object, now with the new timestamp 2 and with the
  style cleared: \<open>check_style_status\<close> wrote the timestamp before the refetch. A second
  lookup then finds the timestamps equal and returns the old object as current.
\<close>

theorem getitem_failed_refetch_alters_entry:
  "seen_layers roads_cached ''roads'' = Some \<lparr>layer = Some 0, updated = 1\<rparr> \<and>
   mapnik (heap roads_cached ! 0) = Some 7 \<and>
   (case getitem example_env (Live [roads_row ''not json'' 2] []) example_cfg ''roads''
           roads_cached of
      (res, s') \<Rightarrow>
        res = Inl JSONDecodeError \<and>
        seen_layers s' ''roads'' = Some \<lparr>layer = Some 0, updated = 2\<rparr> \<and>
        mapnik (heap s' ! 0) = None \<and>
        fst (getitem example_env (Live [roads_row ''not json'' 2] []) example_cfg ''roads'' s')
          = Inr 0)"
  by (simp add: getitem_def falsy_def check_style_status_live fetch_layer_from_db_live
      on_success_def clear_mapnik_def plain_def roads_cached_def roads_row_def example_env_def)

subsection \<open>Missing rows\<close>

lemma find_no_row: "key \<notin> rkey ` set lt \<Longrightarrow> find (\<lambda>r. rkey r = key) lt = None"
  by (induction lt) auto

text \<open>
  Claim C3, as the code has it. For a plain key that is not in the cache and has no
  row in the store, \<open>getitem\<close> raises \<open>IndexError\<close>, the error of taking element 0 of
  the empty result list: a lookup failure, not the \<open>KeyError\<close> of a mapping, and not
  the error of a store outage, which is \<open>InterfaceError\<close> on a closed connection and
  \<open>OperationalError\<close> when the server is gone. The cache map is as before; the state
  differs by the one full-row query in the log.
\<close>

theorem getitem_missing_row:
  assumes "plain key" and "seen_layers s key = None" and "key \<notin> rkey ` set lt"
  shows "getitem E (Live lt ct) cfg key s =
           (Inl IndexError, s\<lparr>qlog := qlog s @ [SelectValueUpdated key]\<rparr>) \<and>
         seen_layers (snd (getitem E (Live lt ct) cfg key s)) = seen_layers s \<and>
         fst (getitem E Closed cfg key s) = Inl InterfaceError \<and>
         fst (getitem E Broken cfg key s) = Inl OperationalError"
  using assms find_no_row [of key lt]
  by (simp add: getitem_def fetch_layer_from_db_live)
    (simp add: fetch_layer_from_db_def on_success_def query_db_def)

theorem getitem_missing_row_witness:
  "plain ''missing'' \<and>
   seen_layers example_state ''missing'' = None \<and>
   ''missing'' \<notin> rkey ` set [roads_row ''{}'' 1] \<and>
   fst (getitem example_env (Live [roads_row ''{}'' 1] []) example_cfg ''missing'' example_state)
     = Inl IndexError \<and>
   seen_layers (snd (getitem example_env (Live [roads_row ''{}'' 1] []) example_cfg ''missing''
     example_state)) = seen_layers example_state"
  using getitem_missing_row [where s = example_state and key = "''missing''"
      and lt = "[roads_row ''{}'' 1]" and E = example_env and ct = "[]" and cfg = example_cfg]
  by (simp add: example_state_def roads_row_def plain_def)

text \<open>
  Against C3 as stated: the error of a lookup of a key without a row is
  \<open>IndexError\<close>, not the key-style error \<open>KeyError\<close>.
\<close>

theorem getitem_missing_row_not_KeyError:
  "fst (getitem example_env (Live [roads_row ''{}'' 1] []) example_cfg ''missing'' example_state)
     = Inl IndexError \<and>
   fst (getitem example_env (Live [roads_row ''{}'' 1] []) example_cfg ''missing'' example_state)
     \<noteq> Inl KeyError"
  by (simp add: getitem_def fetch_layer_from_db_live plain_def example_state_def roads_row_def)

text \<open>
  Claim C4, as the code has it. When the name is plain and no row of the
  configuration table has it, the constructor of \<open>PGConfiguration\<close> raises the
  \<open>TypeError\<close> of \<open>fetchone()[0]\<close> on \<open>None\<close> (the module has no error of its own for a
  missing configuration) and returns no object. The one statement sent is the
  configuration query: no layer row has been fetched, the parser has not run, and
  cache and heap are untouched.
\<close>

theorem PGConfiguration_init_no_config_row:
  assumes "plain config_name" and "config_name \<notin> fst ` set ct"
  shows "PGConfiguration_init E (Live lt ct) dirpath' loglevel config_name s =
           (Inl TypeError, s\<lparr>qlog := qlog s @ [SelectCache config_name]\<rparr>)"
proof -
  from assms(2) have "filter (\<lambda>r. fst r = config_name) ct = []"
    by (auto simp add: filter_empty_conv)
  with assms(1) show ?thesis
    by (simp add: PGConfiguration_init_def get_cache_dict_def names_where_def on_success_def)
qed

theorem PGConfiguration_init_no_config_row_witness:
  "plain ''default'' \<and>
   ''default'' \<notin> fst ` set [(''other'', ''{}'')] \<and>
   PGConfiguration_init example_env (Live [roads_row ''{}'' 1] [(''other'', ''{}'')])
     ''/tmp'' ''INFO'' ''default'' example_state
   = (Inl TypeError,
      \<lparr>seen_layers = Map.empty, heap = [], qlog = [SelectCache ''default''], parsed = 0\<rparr>)"
  using PGConfiguration_init_no_config_row [where config_name = "''default''"
      and ct = "[(''other'', ''{}'')]" and E = example_env and lt = "[roads_row ''{}'' 1]"
      and dirpath' = "''/tmp''" and loglevel = "''INFO''" and s = example_state]
  by (simp add: example_state_def plain_def)

text \<open>
  Against C4 as stated: no row of the configuration table has the name
  \<open>x' OR '1'='1\<close>, yet the statement built from it selects the row of \<open>other\<close>, the
  construction succeeds, and the layer rows are fetched and parsed.
\<close>

theorem PGConfiguration_init_pasted_name_finds_row:
  "''x' OR '1'='1'' \<notin> fst ` set [(''other'', ''{}'')] \<and>
   (case PGConfiguration_init example_env (Live [roads_row ''{}'' 1] [(''other'', ''{}'')])
           ''/tmp'' ''INFO'' ''x' OR '1'='1'' example_state of
      (res, s') \<Rightarrow>
        res = Inr example_cfg \<and>
        qlog s' = [SelectCache ''x' OR '1'='1'', SelectKeys, SelectValueUpdated ''roads''] \<and>
        parsed s' = 1)"
  by (simp add: PGConfiguration_init_def get_cache_dict_def names_where_def on_success_def
      pure_step_def DBLayers_init_def keys_def query_db_def fetch_layer_from_db_live plain_def
      roads_row_def example_state_def example_env_def example_cfg_def)

subsection \<open>The life of a cache entry\<close>

text \<open>
  Claim C5, as the code has it. The constructor of \<open>DBLayers\<close> fetches every key of
  the layer table, so after a successful construction the cached keys are the keys
  of the table. After that a successful lookup leaves an entry for its key. When a
  lookup of a plain key finds the row's timestamp changed and succeeds, the entry is
  a new one: a new object and the row's timestamp. Nothing expires an entry: a
  lookup of \<open>key\<close> leaves the entry of every other key as it is and keeps an entry
  whose layer is not empty, and \<open>contains\<close>, \<open>keys\<close> and \<open>items\<close> do not touch the
  cache map.
\<close>

theorem cache_entry_lifecycle:
  "(DBLayers_init E (Live lt ct) cfg s0 = (Inr (), s1) \<longrightarrow>
      dom (seen_layers s1) = rkey ` set lt) \<and>
   (getitem E conn cfg key s = (Inr a, s') \<longrightarrow> seen_layers s' key \<noteq> None) \<and>
   (plain key \<and> seen_layers s key = Some e \<and> layer e = Some b \<and> b < length (heap s) \<and>
    truthy (heap s ! b) \<and> find (\<lambda>r. rkey r = key) lt' = Some r \<and>
    rupdated r \<noteq> updated e \<and> getitem E (Live lt' ct') cfg key s = (Inr a', s'') \<longrightarrow>
      a' \<noteq> b \<and> a' = length (heap s) \<and>
      seen_layers s'' key = Some \<lparr>layer = Some a', updated = rupdated r\<rparr>) \<and>
   (k' \<noteq> key \<longrightarrow> seen_layers (snd (getitem E conn cfg key s)) k' = seen_layers s k') \<and>
   (\<forall>e. seen_layers s key = Some e \<longrightarrow> \<not> falsy s (layer e) \<longrightarrow>
      seen_layers (snd (getitem E conn cfg key s)) key \<noteq> None) \<and>
   seen_layers (snd (contains E conn key s)) = seen_layers s \<and>
   seen_layers (snd (keys conn s)) = seen_layers s \<and>
   seen_layers (snd (items conn s)) = seen_layers s"
proof (intro conjI impI allI)
  show "dom (seen_layers s1) = rkey ` set lt"
    if "DBLayers_init E (Live lt ct) cfg s0 = (Inr (), s1)"
    using that by (rule DBLayers_init_dom)
  show "seen_layers s' key \<noteq> None" if "getitem E conn cfg key s = (Inr a, s')"
    using that by (rule getitem_success_cached)
  show "seen_layers (snd (getitem E conn cfg key s)) k' = seen_layers s k'" if "k' \<noteq> key"
    using that by (rule getitem_other_keys)
  show "seen_layers (snd (getitem E conn cfg key s)) key \<noteq> None"
    if "seen_layers s key = Some e" and "\<not> falsy s (layer e)" for e
    using that by (rule getitem_keeps_object_entry)
  show "seen_layers (snd (contains E conn key s)) = seen_layers s"
    by (simp add: contains_def on_success_def query_db_def
        split: option.splits connection.splits sum.splits)
  show "seen_layers (snd (keys conn s)) = seen_layers s"
    by (cases conn) (simp_all add: keys_def query_db_def)
  show "seen_layers (snd (items conn s)) = seen_layers s"
    by (cases conn) (simp_all add: items_def query_db_def)
next
  assume h: "plain key \<and> seen_layers s key = Some e \<and> layer e = Some b \<and> b < length (heap s) \<and>
    truthy (heap s ! b) \<and> find (\<lambda>r. rkey r = key) lt' = Some r \<and>
    rupdated r \<noteq> updated e \<and> getitem E (Live lt' ct') cfg key s = (Inr a', s'')"
  then have g: "fetch_layer_from_db E (Live lt' ct') cfg key
      (clear_mapnik b (s\<lparr>qlog := qlog s @ [SelectUpdated key],
         seen_layers := (seen_layers s)(key \<mapsto> e\<lparr>updated := rupdated r\<rparr>)\<rparr>)) = (Inr a', s'')"
    by (auto simp add: getitem_def falsy_def check_style_status_live on_success_def)
  from h have "seen_layers s'' key = Some \<lparr>layer = Some a', updated = rupdated r\<rparr>"
    and "a' = length (heap s)"
    using g
    by (auto simp add: fetch_layer_from_db_live clear_mapnik_def split: option.splits)
  with h show "a' \<noteq> b" and "a' = length (heap s)"
    and "seen_layers s'' key = Some \<lparr>layer = Some a', updated = rupdated r\<rparr>"
    by auto
qed

theorem cache_entry_lifecycle_witness:
  "DBLayers_init example_env (Live [roads_row ''{}'' 1] []) example_cfg example_state =
     (Inr (),
      \<lparr>seen_layers = [''roads'' \<mapsto> \<lparr>layer = Some 0, updated = 1\<rparr>],
       heap = [\<lparr>body = ''layer'', lkey = Some ''roads'', mapnik = None, truthy = True\<rparr>],
       qlog = [SelectKeys, SelectValueUpdated ''roads''], parsed = 1\<rparr>) \<and>
   dom [''roads'' \<mapsto> \<lparr>layer = Some 0, updated = 1\<rparr>] = {''roads''} \<and>
   plain ''roads'' \<and>
   seen_layers roads_cached ''roads'' = Some \<lparr>layer = Some 0, updated = 1\<rparr> \<and>
   0 < length (heap roads_cached) \<and> truthy (heap roads_cached ! 0) \<and>
   find (\<lambda>r. rkey r = ''roads'') [rivers_row ''{}'' 1, roads_row ''{}'' 2]
     = Some (roads_row ''{}'' 2) \<and>
   fst (getitem example_env (Live [rivers_row ''{}'' 1, roads_row ''{}'' 2] []) example_cfg
     ''roads'' roads_cached) = Inr 1 \<and>
   seen_layers (snd (getitem example_env (Live [rivers_row ''{}'' 1, roads_row ''{}'' 2] [])
     example_cfg ''roads'' roads_cached)) ''roads'' = Some \<lparr>layer = Some 1, updated = 2\<rparr> \<and>
   \<not> falsy roads_cached (Some 0) \<and>
   ''rivers'' \<noteq> ''roads'' \<and>
   seen_layers (snd (getitem example_env (Live [rivers_row ''{}'' 1, roads_row ''{}'' 2] [])
     example_cfg ''roads'' roads_cached)) ''rivers'' = None"
  using cache_entry_lifecycle [where E = example_env and lt = "[roads_row ''{}'' 1]"
      and ct = "[]" and cfg = example_cfg and ?s0.0 = example_state
      and ?s1.0 = "\<lparr>seen_layers = [''roads'' \<mapsto> \<lparr>layer = Some 0, updated = 1\<rparr>],
                   heap = [\<lparr>body = ''layer'', lkey = Some ''roads'', mapnik = None,
                            truthy = True\<rparr>],
                   qlog = [SelectKeys, SelectValueUpdated ''roads''], parsed = 1\<rparr>"
      and conn = "Live [rivers_row ''{}'' 1, roads_row ''{}'' 2] []" and key = "''roads''"
      and s = roads_cached and a = 1
      and s' = "snd (getitem example_env (Live [rivers_row ''{}'' 1, roads_row ''{}'' 2] [])
                  example_cfg ''roads'' roads_cached)"
      and e = "\<lparr>layer = Some 0, updated = 1\<rparr>" and b = 0
      and lt' = "[rivers_row ''{}'' 1, roads_row ''{}'' 2]" and ct' = "[]"
      and r = "roads_row ''{}'' 2" and a' = 1
      and s'' = "snd (getitem example_env (Live [rivers_row ''{}'' 1, roads_row ''{}'' 2] [])
                  example_cfg ''roads'' roads_cached)"
      and k' = "''rivers''"]
  by (simp add: DBLayers_init_def keys_def query_db_def on_success_def getitem_def falsy_def
      check_style_status_live fetch_layer_from_db_live clear_mapnik_def plain_def
      roads_row_def rivers_row_def roads_cached_def example_state_def example_env_def)

text \<open>
  Against C5 as stated: a store is built over a table that holds \<open>roads\<close>. The
  construction succeeds, the statements sent are those of the constructor, no lookup
  has been made, and the cache holds an entry for \<open>roads\<close>.
\<close>

theorem construction_caches_every_key:
  "case PGConfiguration_init example_env (Live [roads_row ''{}'' 1] [(''default'', ''{}'')])
          ''/tmp'' ''INFO'' ''default'' example_state of
     (res, s') \<Rightarrow>
       res = Inr example_cfg \<and>
       qlog s' = [SelectCache ''default'', SelectKeys, SelectValueUpdated ''roads''] \<and>
       seen_layers s' ''roads'' = Some \<lparr>layer = Some 0, updated = 1\<rparr>"
  by (simp add: PGConfiguration_init_def get_cache_dict_def names_where_def on_success_def
      pure_step_def DBLayers_init_def keys_def query_db_def fetch_layer_from_db_live plain_def
      roads_row_def example_state_def example_env_def example_cfg_def)

subsection \<open>The cost of a lookup\<close>

text \<open>
  Claim C6, as the code has it. Over an open connection, for a key whose entry holds
  a layer that is not empty, one \<open>getitem\<close> adds exactly one timestamp query to the
  statements sent, whether or not a refetch follows. For a key whose entry holds an
  empty layer, the entry is dropped first and the call sends the full-row query
  only: when that fetch fails the key is left without an entry, and when it succeeds
  the entry is the new one.
\<close>

theorem getitem_timestamp_queries:
  assumes "seen_layers s key = Some e" and "conn \<noteq> Closed"
  shows "case getitem E conn cfg key s of (res, s') \<Rightarrow>
           (\<not> falsy s (layer e) \<longrightarrow>
              filter is_timestamp_query (qlog s') =
                filter is_timestamp_query (qlog s) @ [SelectUpdated key]) \<and>
           (falsy s (layer e) \<longrightarrow>
              qlog s' = qlog s @ [SelectValueUpdated key] \<and>
              (\<forall>err. res = Inl err \<longrightarrow> seen_layers s' key = None) \<and>
              (\<forall>a. res = Inr a \<longrightarrow>
                 a = length (heap s) \<and>
                 (\<exists>u. seen_layers s' key = Some \<lparr>layer = Some a, updated = u\<rparr>)))"
proof (cases "falsy s (layer e)")
  case False
  from qlog_getitem_object [OF assms(1) False assms(2), of E cfg] False show ?thesis
    by (auto split: prod.splits)
next
  case True
  define t where "t = s\<lparr>seen_layers := (seen_layers s)(key := None)\<rparr>"
  obtain res s' where f: "fetch_layer_from_db E conn cfg key t = (res, s')"
    by (cases "fetch_layer_from_db E conn cfg key t")
  from assms True have g: "getitem E conn cfg key s = (res, s')"
    by (simp add: getitem_def t_def [symmetric] f)
  from qlog_fetch_layer_from_db [of E conn cfg key t] f assms(2)
  have q: "qlog s' = qlog s @ [SelectValueUpdated key]" by (simp add: t_def)
  have "seen_layers s' key = None" if "res = Inl err" for err
    using fetch_layer_from_db_failure [of E conn cfg key t err s'] f that by (simp add: t_def)
  moreover have "a = length (heap s) \<and>
      (\<exists>u. seen_layers s' key = Some \<lparr>layer = Some a, updated = u\<rparr>)" if "res = Inr a" for a
    using fetch_layer_from_db_success [of E conn cfg key t a s'] f that by (auto simp add: t_def)
  ultimately show ?thesis using True q by (auto simp add: g)
qed

theorem getitem_timestamp_queries_witness:
  "seen_layers roads_cached ''roads'' = Some \<lparr>layer = Some 0, updated = 1\<rparr> \<and>
   \<not> falsy roads_cached (Some 0) \<and>
   filter is_timestamp_query
     (qlog (snd (getitem example_env (Live [rivers_row ''{}'' 1, roads_row ''{}'' 2] [])
        example_cfg ''roads'' roads_cached))) = [SelectUpdated ''roads''] \<and>
   seen_layers empty_layer_cached ''roads'' = Some \<lparr>layer = Some 0, updated = 1\<rparr> \<and>
   falsy empty_layer_cached (Some 0) \<and>
   getitem empty_layers_env (Live [rivers_row ''{}'' 1] []) example_cfg ''roads''
     empty_layer_cached =
     (Inl IndexError,
      \<lparr>seen_layers = Map.empty, heap = heap empty_layer_cached,
       qlog = [SelectValueUpdated ''roads'', SelectValueUpdated ''roads''], parsed = 1\<rparr>)"
  using
    getitem_timestamp_queries [where s = roads_cached and key = "''roads''"
      and e = "\<lparr>layer = Some 0, updated = 1\<rparr>" and E = example_env
      and conn = "Live [rivers_row ''{}'' 1, roads_row ''{}'' 2] []" and cfg = example_cfg]
    getitem_timestamp_queries [where s = empty_layer_cached and key = "''roads''"
      and e = "\<lparr>layer = Some 0, updated = 1\<rparr>" and E = empty_layers_env
      and conn = "Live [rivers_row ''{}'' 1] []" and cfg = example_cfg]
  by (simp add: getitem_def falsy_def check_style_status_live fetch_layer_from_db_live
      on_success_def clear_mapnik_def plain_def roads_cached_def empty_layer_cached_def
      roads_row_def rivers_row_def example_env_def empty_layers_env_def)

text \<open>
  Against C6 as stated. A lookup in the second store caches an empty layer object
  for \<open>roads\<close>; the next lookup of \<open>roads\<close> sends no timestamp query. And on a closed
  connection a lookup of a cached key sends no statement at all.
\<close>

theorem getitem_empty_layer_no_timestamp_query:
  "getitem empty_layers_env (Live [roads_row ''{}'' 1] []) example_cfg ''roads'' example_state =
     (Inr 0, empty_layer_cached) \<and>
   seen_layers empty_layer_cached ''roads'' \<noteq> None \<and>
   filter is_timestamp_query
     (qlog (snd (getitem empty_layers_env (Live [roads_row ''{}'' 2] []) example_cfg ''roads''
        empty_layer_cached))) = [] \<and>
   seen_layers roads_cached ''roads'' \<noteq> None \<and>
   filter is_timestamp_query
     (qlog (snd (getitem example_env Closed example_cfg ''roads'' roads_cached))) = []"
  by (simp add: getitem_def falsy_def check_style_status_def fetch_layer_from_db_live
      on_success_def query_db_def plain_def roads_cached_def empty_layer_cached_def
      example_state_def roads_row_def example_env_def empty_layers_env_def)

subsection \<open>The existence check on plain keys\<close>

lemma contains_cached:
  "seen_layers s key \<noteq> None \<Longrightarrow> contains E conn key s = (Inr True, s)"
  by (auto simp add: contains_def)

lemma contains_plain_uncached:
  "plain key \<Longrightarrow> seen_layers s key = None \<Longrightarrow>
   contains E (Live lt ct) key s =
     (Inr (count_list (map rkey lt) key = 1), s\<lparr>qlog := qlog s @ [SelectCount key]\<rparr>)"
  by (simp add: contains_def on_success_def query_db_def rows_where_def columns_def
      length_filter_count_list)

lemma count_one_iff_member:
  "distinct (map rkey lt) \<Longrightarrow> count_list (map rkey lt) key = 1 \<longleftrightarrow> key \<in> rkey ` set lt"
proof (induction lt)
  case Nil
  then show ?case by simp
next
  case (Cons r lt)
  show ?case
  proof (cases "rkey r = key")
    case True
    with Cons.prems have "key \<notin> set (map rkey lt)" by auto
    then have "count_list (map rkey lt) key = 0" by (simp add: count_list_0_iff)
    with True show ?thesis by simp
  next
    case False
    with Cons show ?thesis by auto
  qed
qed

lemma contains_plain_iff_cached_or_row:
  assumes "plain key" and "distinct (map rkey lt)"
  shows "fst (contains E (Live lt ct) key s) = Inr True \<longleftrightarrow>
           key \<in> dom (seen_layers s) \<or> key \<in> rkey ` set lt"
proof (cases "seen_layers s key")
  case None
  with assms count_one_iff_member [OF assms(2), of key] show ?thesis
    by (simp add: contains_plain_uncached dom_def)
next
  case (Some e)
  then show ?thesis by (auto simp add: contains_def)
qed

lemma contains_after_getitem:
  "getitem E conn cfg key s = (Inr a, s') \<Longrightarrow> contains E conn' key s' = (Inr True, s')"
  by (rule contains_cached) (rule getitem_success_cached)

subsection \<open>The existence check on a key that holds a quote\<close>

text \<open>
  Claim C7, at the input where the code departs from it. The key \<open>x' OR '1'='1\<close> is
  not in the cache and no row of the table has it, and \<open>contains\<close> answers true: the
  count statement built from the key counts every row. (For plain keys the claim
  holds: \<open>contains_cached\<close>, \<open>contains_plain_iff_cached_or_row\<close>.)
\<close>

theorem contains_pasted_key_present:
  "distinct (map rkey [roads_row ''{}'' 1]) \<and>
   ''x' OR '1'='1'' \<notin> dom (seen_layers example_state) \<and>
   ''x' OR '1'='1'' \<notin> rkey ` set [roads_row ''{}'' 1] \<and>
   fst (contains example_env (Live [roads_row ''{}'' 1] []) ''x' OR '1'='1'' example_state)
     = Inr True"
  by (simp add: contains_def on_success_def query_db_def rows_where_def columns_def plain_def
      example_state_def example_env_def roads_row_def)

text \<open>
  Claim C9, at the input where the code departs from it. The key \<open>x' OR '1'='1\<close> has
  never been cached and has no row in the store, and \<open>contains\<close> returns true, having
  sent the count statement. (The first half of the claim holds for every key,
  \<open>contains_after_getitem\<close>, and the second for plain keys,
  \<open>contains_plain_uncached\<close>.)
\<close>

theorem contains_pasted_key_never_cached:
  "seen_layers example_state ''x' OR '1'='1'' = None \<and>
   ''x' OR '1'='1'' \<notin> rkey ` set [rivers_row ''{}'' 3] \<and>
   contains example_env (Live [rivers_row ''{}'' 3] []) ''x' OR '1'='1'' example_state =
     (Inr True, example_state\<lparr>qlog := [SelectCount ''x' OR '1'='1'']\<rparr>)"
  by (simp add: contains_def on_success_def query_db_def rows_where_def columns_def plain_def
      example_state_def example_env_def rivers_row_def)

text \<open>
  Claim C10, at the input where the code departs from it. For the key
  \<open>x' OR '1'='1\<close>, not in the cache, the number of rows with that key is 0 and
  \<open>contains\<close> answers true. For the plain key \<open>roads\<close> the answer is the comparison
  of the count with 1, as the claim says (\<open>contains_plain_uncached\<close>): true for one
  row among others, false for two.
\<close>

theorem contains_pasted_key_count:
  "seen_layers example_state ''x' OR '1'='1'' = None \<and>
   count_list (map rkey [rivers_row ''{}'' 3]) ''x' OR '1'='1'' = 0 \<and>
   fst (contains example_env (Live [rivers_row ''{}'' 3] []) ''x' OR '1'='1'' example_state)
     = Inr True \<and>
   count_list (map rkey [roads_row ''{}'' 1, rivers_row ''{}'' 3]) ''roads'' = 1 \<and>
   fst (contains example_env (Live [roads_row ''{}'' 1, rivers_row ''{}'' 3] []) ''roads''
     example_state) = Inr True \<and>
   fst (contains example_env (Live [roads_row ''{}'' 1, roads_row ''{}'' 2] []) ''roads''
     example_state) = Inr False"
  by (simp add: contains_def on_success_def query_db_def rows_where_def columns_def plain_def
      example_state_def example_env_def rivers_row_def roads_row_def)

subsection \<open>What a lookup changes besides the cache map\<close>

text \<open>
  Claim C8, as the code has it. A lookup never removes a layer object, and every
  object that existed before the call is unchanged after it, with one exception: the
  object cached for the key, when the staleness check reports a changed timestamp,
  has its compiled style set to \<open>None\<close> and is unchanged otherwise. The connection and
  the configuration are arguments of the call and are not written.
\<close>

theorem getitem_frame:
  "length (heap s) \<le> length (heap (snd (getitem E conn cfg key s))) \<and>
   (\<forall>i < length (heap s).
      heap (snd (getitem E conn cfg key s)) ! i = heap s ! i \<or>
      (\<exists>e. seen_layers s key = Some e \<and> layer e = Some i \<and>
           fst (check_style_status E conn key s) = Inr True \<and>
           heap (snd (getitem E conn cfg key s)) ! i = (heap s ! i)\<lparr>mapnik := None\<rparr>))"
proof (cases "seen_layers s key")
  case None
  with fetch_layer_from_db_heap [of s E conn cfg key] show ?thesis
    by (simp add: getitem_def)
next
  case (Some e)
  show ?thesis
  proof (cases "falsy s (layer e)")
    case True
    with Some
      fetch_layer_from_db_heap [of "s\<lparr>seen_layers := (seen_layers s)(key := None)\<rparr>" E conn cfg key]
    show ?thesis by (simp add: getitem_def)
  next
    case False
    then obtain b where b: "layer e = Some b" by (cases "layer e") (simp_all add: falsy_def)
    from Some show ?thesis
    proof (cases rule: check_style_status_cases [where E = E and conn = conn])
      case (raised err s1)
      with False Some show ?thesis
        by (simp add: getitem_def on_success_def)
    next
      case fresh
      with False Some show ?thesis
        by (simp add: getitem_def on_success_def)
    next
      case (stale u)
      define t where "t = clear_mapnik b (s\<lparr>qlog := qlog s @ [SelectUpdated key],
                 seen_layers := (seen_layers s)(key \<mapsto> e\<lparr>updated := u\<rparr>)\<rparr>)"
      have g: "getitem E conn cfg key s = fetch_layer_from_db E conn cfg key t"
        using stale False b Some
        by (simp add: getitem_def on_success_def t_def)
      have h: "heap t = (heap s)[b := (heap s ! b)\<lparr>mapnik := None\<rparr>]"
        by (simp add: t_def clear_mapnik_def)
      have f: "length (heap s) \<le> length (heap (snd (fetch_layer_from_db E conn cfg key t)))"
        and n: "\<And>i. i < length (heap s) \<Longrightarrow>
          heap (snd (fetch_layer_from_db E conn cfg key t)) ! i =
            (heap s)[b := (heap s ! b)\<lparr>mapnik := None\<rparr>] ! i"
        using fetch_layer_from_db_heap [of t E conn cfg key] h by simp_all
      have "heap (snd (fetch_layer_from_db E conn cfg key t)) ! i = heap s ! i \<or>
            (i = b \<and> heap (snd (fetch_layer_from_db E conn cfg key t)) ! i =
               (heap s ! i)\<lparr>mapnik := None\<rparr>)"
        if "i < length (heap s)" for i
        using that n [OF that] by (cases "i = b") simp_all
      with f stale b Some show ?thesis
        by (auto simp add: g)
    qed
  qed
qed

theorem getitem_frame_witness:
  "0 < length (heap roads_cached) \<and>
   heap (snd (getitem example_env (Live [roads_row ''{}'' 1] []) example_cfg ''roads''
     roads_cached)) ! 0 = heap roads_cached ! 0 \<and>
   heap (snd (getitem example_env (Live [roads_row ''{}'' 2] []) example_cfg ''roads''
     roads_cached)) ! 0 = (heap roads_cached ! 0)\<lparr>mapnik := None\<rparr>"
  using
    getitem_frame [where s = roads_cached and E = example_env
      and conn = "Live [roads_row ''{}'' 1] []" and cfg = example_cfg and key = "''roads''"]
    getitem_frame [where s = roads_cached and E = example_env
      and conn = "Live [roads_row ''{}'' 2] []" and cfg = example_cfg and key = "''roads''"]
  by (simp add: getitem_def falsy_def check_style_status_live fetch_layer_from_db_live
      on_success_def clear_mapnik_def plain_def roads_cached_def roads_row_def example_env_def)

text \<open>
  Against C8 as stated: object 0 was returned by an earlier lookup of \<open>roads\<close> and
  has its style compiled (handle 7). After the row changes, the next lookup of
  \<open>roads\<close> sets the style of that object to \<open>None\<close>.
\<close>

theorem getitem_clears_returned_layer:
  "mapnik (heap roads_cached ! 0) = Some 7 \<and>
   mapnik (heap (snd (getitem example_env (Live [roads_row ''{}'' 2] []) example_cfg ''roads''
     roads_cached)) ! 0) = None"
  by (simp add: getitem_def falsy_def check_style_status_live fetch_layer_from_db_live
      on_success_def clear_mapnik_def plain_def roads_cached_def roads_row_def example_env_def)

end
